theory Spec2Isabelle
  imports Main
begin

section \<open>Data model\<close>

text \<open>
  The service keeps its worker pool in module globals. \<^verbatim>\<open>app/main.py\<close> declares
  \<^verbatim>\<open>executor\<close> and \<^verbatim>\<open>manager\<close>, both \<^verbatim>\<open>None\<close>, and \<^verbatim>\<open>init_resources\<close> assigns them
  through \<^verbatim>\<open>global executor, manager\<close>. \<^verbatim>\<open>app/services/crawler_service.py\<close> obtains the
  names with \<^verbatim>\<open>from app.main import executor, manager, init_resources\<close>, which binds two
  names of its own to what \<^verbatim>\<open>app.main\<close> holds when the module is imported; the
  \<^verbatim>\<open>global\<close> statement of \<^verbatim>\<open>refresh_resources_service\<close> and the reads of
  \<^verbatim>\<open>crawl_service\<close> refer to these bindings of the service module, while
  \<^verbatim>\<open>init_resources\<close> keeps assigning the globals of \<^verbatim>\<open>app.main\<close>. The state therefore has
  four references.

  Objects are told apart by an identity drawn from a counter; what the process pool, the
  coordinator and the crawler do beyond the references is recorded as a trace of events.
  Logging and printing change neither the state nor a returned value and are left out.
  An \<open>exn\<close> is an instance of \<^verbatim>\<open>Exception\<close>, the class the handlers of the source name.
\<close>

datatype exn = Exception (str: string)

datatype executor =
  ProcessPoolExecutor (pool_id: nat) (max_workers: nat) (max_tasks_per_child: "nat option")

datatype manager = Manager (manager_id: nat)

datatype event =
    Pool_constructed nat
  | Manager_constructed nat
  | Pool_shutdown nat
  | Manager_shutdown nat
  | Run_in_executor nat "string list" "string list"

record world =
  MAX_WORKERS :: nat
  python_3_11 :: bool
  main_executor :: "executor option"
  main_manager :: "manager option"
  svc_executor :: "executor option"
  svc_manager :: "manager option"
  next_id :: nat
  trace :: "event list"

text \<open>
  What a constructor call does is decided outside the program: it builds the object or
  raises. \<^verbatim>\<open>multiprocessing.get_context('spawn')\<close> precedes the pool's constructor inside
  the same \<^verbatim>\<open>try\<close> and assigns nothing, so its failure is the branch of the pool's
  constructor raising.
\<close>

datatype ctor_outcome = Builds | Fails exn

section \<open>app/main.py: init_resources\<close>

definition new_executor :: "world \<Rightarrow> executor" where
  "new_executor w =
     (if python_3_11 w then ProcessPoolExecutor (next_id w) (MAX_WORKERS w) (Some 1)
      else ProcessPoolExecutor (next_id w) (MAX_WORKERS w) None)"

definition assign_executor :: "world \<Rightarrow> world" where
  "assign_executor w =
     w\<lparr>main_executor := Some (new_executor w),
       next_id := Suc (next_id w),
       trace := trace w @ [Pool_constructed (next_id w)]\<rparr>"

definition assign_manager :: "world \<Rightarrow> world" where
  "assign_manager w =
     w\<lparr>main_manager := Some (Manager (next_id w)),
       next_id := Suc (next_id w),
       trace := trace w @ [Manager_constructed (next_id w)]\<rparr>"

definition init_resources :: "ctor_outcome \<Rightarrow> ctor_outcome \<Rightarrow> world \<Rightarrow> (exn + unit) \<times> world" where
  "init_resources pool_ctor manager_ctor w =
     (if main_executor w \<noteq> None \<and> main_manager w \<noteq> None then (Inr (), w)
      else case pool_ctor of
             Fails e \<Rightarrow> (Inl e, w)
           | Builds \<Rightarrow>
               (case manager_ctor of
                  Fails e \<Rightarrow> (Inl e, assign_executor w)
                | Builds \<Rightarrow> (Inr (), assign_manager (assign_executor w))))"

text \<open>The shutdown calls recorded in a trace.\<close>

fun is_shutdown :: "event \<Rightarrow> bool" where
  "is_shutdown (Pool_shutdown i) = True"
| "is_shutdown (Manager_shutdown i) = True"
| "is_shutdown ev = False"

definition shutdowns :: "event list \<Rightarrow> event list" where
  "shutdowns evs = filter is_shutdown evs"

text \<open>Every identity a reference holds was drawn from the counter.\<close>

fun executor_below :: "nat \<Rightarrow> executor option \<Rightarrow> bool" where
  "executor_below n None = True"
| "executor_below n (Some e) = (pool_id e < n)"

fun manager_below :: "nat \<Rightarrow> manager option \<Rightarrow> bool" where
  "manager_below n None = True"
| "manager_below n (Some m) = (manager_id m < n)"

definition ids_allocated :: "world \<Rightarrow> bool" where
  "ids_allocated w =
     (executor_below (next_id w) (main_executor w) \<and> manager_below (next_id w) (main_manager w) \<and>
      executor_below (next_id w) (svc_executor w) \<and> manager_below (next_id w) (svc_manager w))"

text \<open>The dispatches recorded in a trace.\<close>

fun is_dispatch :: "event \<Rightarrow> bool" where
  "is_dispatch (Run_in_executor i urls domains) = True"
| "is_dispatch ev = False"

definition dispatches :: "event list \<Rightarrow> event list" where
  "dispatches evs = filter is_dispatch evs"

text \<open>
  The two names of the service module are \<^verbatim>\<open>None\<close> when the module is imported, and the
  only statements that assign them, in \<^verbatim>\<open>refresh_resources_service\<close>, assign \<^verbatim>\<open>None\<close>:
  \<open>service_names_unset\<close> holds in every state the service reaches. The service is started
  once the call of \<^verbatim>\<open>init_resources\<close> in \<^verbatim>\<open>lifespan\<close> has returned; no statement unsets
  the globals of \<^verbatim>\<open>app.main\<close> afterwards.
\<close>

definition service_names_unset :: "world \<Rightarrow> bool" where
  "service_names_unset w = (svc_executor w = None \<and> svc_manager w = None)"

definition started :: "world \<Rightarrow> bool" where
  "started w = (main_executor w \<noteq> None \<and> main_manager w \<noteq> None)"

section \<open>app/services/crawler_service.py: extract_important_text_bs4\<close>

text \<open>
  A Python \<^verbatim>\<open>str\<close> is a sequence of code points, and \<^verbatim>\<open>len\<close> counts code points: page
  text is a list of natural numbers. \<open>py\<close> reads an ASCII literal as such a text.
  \<open>isspace\<close> is \<^verbatim>\<open>str.isspace\<close> (what \<^verbatim>\<open>str.strip()\<close> removes at both ends) and
  \<open>is_linebreak\<close> the line boundaries of \<^verbatim>\<open>str.splitlines()\<close>, where a carriage return
  followed by a line feed is one boundary and a final boundary opens no further line.
\<close>

type_synonym pystr = "nat list"

definition py :: "string \<Rightarrow> pystr" where
  "py s = map of_char s"

definition isspace :: "nat \<Rightarrow> bool" where
  "isspace c =
     ((9 \<le> c \<and> c \<le> 13) \<or> (28 \<le> c \<and> c \<le> 32) \<or> c = 133 \<or> c = 160 \<or> c = 5760 \<or>
      (8192 \<le> c \<and> c \<le> 8202) \<or> c = 8232 \<or> c = 8233 \<or> c = 8239 \<or> c = 8287 \<or> c = 12288)"

definition strip :: "pystr \<Rightarrow> pystr" where
  "strip s = rev (dropWhile isspace (rev (dropWhile isspace s)))"

definition is_linebreak :: "nat \<Rightarrow> bool" where
  "is_linebreak c =
     ((10 \<le> c \<and> c \<le> 13) \<or> (28 \<le> c \<and> c \<le> 30) \<or> c = 133 \<or> c = 8232 \<or> c = 8233)"

fun splitlines_from :: "pystr \<Rightarrow> pystr \<Rightarrow> pystr list" where
  "splitlines_from line [] = (if line = [] then [] else [line])"
| "splitlines_from line [c] = (if is_linebreak c then [line] else [line @ [c]])"
| "splitlines_from line (c # d # cs) =
     (if c = 13 \<and> d = 10 then line # splitlines_from [] cs
      else if is_linebreak c then line # splitlines_from [] (d # cs)
      else splitlines_from (line @ [c]) (d # cs))"

definition splitlines :: "pystr \<Rightarrow> pystr list" where
  "splitlines s = splitlines_from [] s"

fun join :: "'a list \<Rightarrow> 'a list list \<Rightarrow> 'a list" where
  "join sep [] = []"
| "join sep [x] = x"
| "join sep (x # y # ys) = x @ sep @ join sep (y # ys)"

text \<open>
  The parse tree that \<^verbatim>\<open>BeautifulSoup(html_content, "lxml")\<close> builds: text nodes, comments and
  elements with their children; a soup is the list of the children of its root. The
  parser is a library outside the repository and is a parameter of the model.
  \<^verbatim>\<open>for element in soup.find_all(tag): element.decompose()\<close> removes every element of that
  name with all it contains, at any depth. \<^verbatim>\<open>get_text(separator, strip=True)\<close> joins, in
  document order, the stripped text nodes that are not empty after stripping; comments,
  and the other strings that are not of the plain text classes, are not text.
\<close>

datatype node = NavigableString pystr | Comment pystr | Tag string "node list"

fun decompose_all :: "string \<Rightarrow> node list \<Rightarrow> node list" where
  "decompose_all tag [] = []"
| "decompose_all tag (Tag name children # rest) =
     (if name = tag then decompose_all tag rest
      else Tag name (decompose_all tag children) # decompose_all tag rest)"
| "decompose_all tag (x # rest) = x # decompose_all tag rest"

fun all_strings :: "node list \<Rightarrow> pystr list" where
  "all_strings [] = []"
| "all_strings (NavigableString s # rest) =
     (if strip s = [] then all_strings rest else strip s # all_strings rest)"
| "all_strings (Comment s # rest) = all_strings rest"
| "all_strings (Tag name children # rest) = all_strings children @ all_strings rest"

definition get_text :: "pystr \<Rightarrow> node list \<Rightarrow> pystr" where
  "get_text separator soup = join separator (all_strings soup)"

definition unwanted_tags :: "string list" where
  "unwanted_tags = [''script'', ''style'', ''nav'', ''footer'', ''aside'', ''form'', ''s'', ''a'']"

definition extract_important_text_bs4 :: "(pystr \<Rightarrow> node list) \<Rightarrow> pystr \<Rightarrow> pystr" where
  "extract_important_text_bs4 BeautifulSoup html_content =
     (let soup = BeautifulSoup html_content;
          soup = fold decompose_all unwanted_tags soup;
          text = get_text [10] soup;
          lines = filter (\<lambda>line. length line > 30) (splitlines text)
      in join [10] lines)"

text \<open>
  The extraction policy in the words of the specification, to compare the code with: the
  visible strings of a page are its stripped, non-empty text nodes that lie inside no
  element of an unwanted name, in document order.
\<close>

fun visible_strings :: "string set \<Rightarrow> node list \<Rightarrow> pystr list" where
  "visible_strings U [] = []"
| "visible_strings U (NavigableString s # rest) =
     (if strip s = [] then visible_strings U rest else strip s # visible_strings U rest)"
| "visible_strings U (Comment s # rest) = visible_strings U rest"
| "visible_strings U (Tag name children # rest) =
     (if name \<in> U then visible_strings U rest
      else visible_strings U children @ visible_strings U rest)"

section \<open>app/services/crawler_service.py: the spider and the job runner\<close>

text \<open>
  \<^verbatim>\<open>HTMLSpider.parse\<close> appends one \<^verbatim>\<open>{"url", "html"}\<close> entry per response to the list it was
  given. What Scrapy does is decided outside the program, so the crawler is a parameter
  that maps the start URLs and the allowed domains to a run: whether the constructor
  \<^verbatim>\<open>CrawlerProcess()\<close> builds the process or raises, which responses are parsed, in order
  of completion, and whether \<^verbatim>\<open>process.crawl\<close> and \<^verbatim>\<open>process.start\<close> complete or raise.
  The constructor stands before the \<^verbatim>\<open>try\<close> of \<^verbatim>\<open>run_crawler_process\<close>: its exception
  leaves the function, while an exception inside the \<^verbatim>\<open>try\<close> is caught.
  \<^verbatim>\<open>run_crawler_process\<close> gives what it returns or raises, together with the final content
  of the shared list.
\<close>

record CrawlResult =
  url :: string
  html :: pystr

datatype response = Response (response_url: string) (response_text: pystr)

datatype crawl_end = Completes | Raises exn

datatype crawl_run =
  Crawl (process_ctor: ctor_outcome) (responses: "response list") (ending: crawl_end)

definition parse :: "(pystr \<Rightarrow> node list) \<Rightarrow> response \<Rightarrow> CrawlResult list \<Rightarrow> CrawlResult list" where
  "parse BeautifulSoup response self_results =
     self_results @ [\<lparr>url = response_url response,
                      html = extract_important_text_bs4 BeautifulSoup (response_text response)\<rparr>]"

definition run_crawler_process ::
  "(pystr \<Rightarrow> node list) \<Rightarrow> (string list \<Rightarrow> string list \<Rightarrow> crawl_run) \<Rightarrow>
   string list \<Rightarrow> string list \<Rightarrow> CrawlResult list \<Rightarrow>
   (exn + CrawlResult list) \<times> CrawlResult list" where
  "run_crawler_process BeautifulSoup CrawlerProcess start_urls allowed_domains spider_results =
     (let run = CrawlerProcess start_urls allowed_domains
      in case process_ctor run of
           Fails e \<Rightarrow> (Inl e, spider_results)
         | Builds \<Rightarrow>
             (let spider_results = fold (parse BeautifulSoup) (responses run) spider_results
              in case ending run of
                   Completes \<Rightarrow> (Inr spider_results, spider_results)
                 | Raises e \<Rightarrow> (Inr [], spider_results)))"

section \<open>app/services/crawler_service.py: crawl_service and refresh_resources_service\<close>

text \<open>
  The dictionary \<^verbatim>\<open>crawl_service\<close> returns has the keys of the response model and, on
  the error paths, a message. The environment of one call gives what is decided outside
  the program: what the two constructors do if \<^verbatim>\<open>init_resources\<close> reaches them; whether
  \<^verbatim>\<open>manager.list()\<close> returns an empty shared list or raises; how the awaited
  \<^verbatim>\<open>loop.run_in_executor\<close> ends; and the two collaborators of the worker. The awaited
  call delivers what the worker's \<^verbatim>\<open>run_crawler_process\<close> returned or raised, or the pool
  itself raises (it is broken or shut down), or the future was cancelled:
  \<^verbatim>\<open>asyncio.CancelledError\<close> is not an instance of \<^verbatim>\<open>Exception\<close> and passes the handler
  of \<^verbatim>\<open>crawl_service\<close>. The calls of \<^verbatim>\<open>init_resources\<close> and of \<^verbatim>\<open>manager.list()\<close> stand
  outside the \<^verbatim>\<open>try\<close>, so their exceptions leave \<^verbatim>\<open>crawl_service\<close>.
  \<open>crawl_service_try\<close> is the rest of \<^verbatim>\<open>crawl_service\<close> after the test of the two names.
\<close>

record CrawlResponse =
  status :: string
  results :: "CrawlResult list"

record service_dict = CrawlResponse +
  message :: "string option"

datatype base_exn = Of_Exception exn | CancelledError

datatype dispatch_outcome = Worker_runs | Executor_raises exn | Future_cancelled

record environment =
  pool_construction :: ctor_outcome
  manager_construction :: ctor_outcome
  manager_list :: ctor_outcome
  dispatch :: dispatch_outcome
  soup_parser :: "pystr \<Rightarrow> node list"
  crawler :: "string list \<Rightarrow> string list \<Rightarrow> crawl_run"

definition not_initialized :: service_dict where
  "not_initialized =
     \<lparr>status = ''error'', results = [],
      message = Some ''Server resources are not initialized. Please ensure the server started correctly.''\<rparr>"

definition execution_failed :: "exn \<Rightarrow> service_dict" where
  "execution_failed e =
     \<lparr>status = ''error'', results = [], message = Some (''Crawl execution failed: '' @ str e)\<rparr>"

definition crawl_service_try ::
  "environment \<Rightarrow> executor \<Rightarrow> manager \<Rightarrow> string list \<Rightarrow> string list \<Rightarrow> world \<Rightarrow>
   (base_exn + service_dict) \<times> world" where
  "crawl_service_try env ex mg start_urls allowed_domains w =
     (case manager_list env of
        Fails e \<Rightarrow> (Inl (Of_Exception e), w)
      | Builds \<Rightarrow>
          (let spider_results = [];
               w' = w\<lparr>trace := trace w @ [Run_in_executor (pool_id ex) start_urls allowed_domains]\<rparr>
           in case dispatch env of
                Future_cancelled \<Rightarrow> (Inl CancelledError, w')
              | Executor_raises e \<Rightarrow> (Inr (execution_failed e), w')
              | Worker_runs \<Rightarrow>
                  (case fst (run_crawler_process (soup_parser env) (crawler env)
                               start_urls allowed_domains spider_results) of
                     Inl e \<Rightarrow> (Inr (execution_failed e), w')
                   | Inr rs \<Rightarrow>
                       (Inr \<lparr>status = ''finished'', results = rs, message = None\<rparr>, w'))))"

definition crawl_service ::
  "environment \<Rightarrow> string list \<Rightarrow> string list \<Rightarrow> world \<Rightarrow> (base_exn + service_dict) \<times> world" where
  "crawl_service env start_urls allowed_domains w =
     (case (svc_executor w, svc_manager w) of
        (Some ex, Some mg) \<Rightarrow> crawl_service_try env ex mg start_urls allowed_domains w
      | _ \<Rightarrow>
          (case init_resources (pool_construction env) (manager_construction env) w of
             (Inl e, w') \<Rightarrow> (Inl (Of_Exception e), w')
           | (Inr u, w') \<Rightarrow>
               (case (svc_executor w', svc_manager w') of
                  (Some ex, Some mg) \<Rightarrow> crawl_service_try env ex mg start_urls allowed_domains w'
                | _ \<Rightarrow> (Inr not_initialized, w'))))"

text \<open>
  \<^verbatim>\<open>refresh_resources_service\<close> shuts down what the service module's own names refer to
  (an exception of a shutdown is caught and logged, so the call is recorded either way),
  sets these two names to \<^verbatim>\<open>None\<close> and calls \<^verbatim>\<open>init_resources\<close> inside a \<^verbatim>\<open>try\<close>.
\<close>

datatype refresh_dict = Refresh_dict (refresh_status: string) (refresh_message: string)

definition shutdown_executor :: "world \<Rightarrow> world" where
  "shutdown_executor w =
     (case svc_executor w of
        None \<Rightarrow> w
      | Some ex \<Rightarrow> w\<lparr>trace := trace w @ [Pool_shutdown (pool_id ex)]\<rparr>)"

definition shutdown_manager :: "world \<Rightarrow> world" where
  "shutdown_manager w =
     (case svc_manager w of
        None \<Rightarrow> w
      | Some mg \<Rightarrow> w\<lparr>trace := trace w @ [Manager_shutdown (manager_id mg)]\<rparr>)"

definition refresh_resources_service :: "ctor_outcome \<Rightarrow> ctor_outcome \<Rightarrow> world \<Rightarrow> refresh_dict \<times> world" where
  "refresh_resources_service pool_ctor manager_ctor w =
     (let w = shutdown_executor w;
          w = shutdown_manager w;
          w = w\<lparr>svc_executor := None, svc_manager := None\<rparr>
      in case init_resources pool_ctor manager_ctor w of
           (Inr u, w') \<Rightarrow>
             (Refresh_dict ''refreshed_and_restarted''
                ''Worker pools have been terminated and new pools are ready for immediate use.'', w')
         | (Inl e, w') \<Rightarrow>
             (Refresh_dict ''error'' (''Failed to re-initialize resources: '' @ str e), w'))"

section \<open>web-crawler.py: the single-module service\<close>

text \<open>
  \<^verbatim>\<open>web-crawler.py\<close> is the same service in one module. Its \<^verbatim>\<open>init_resources\<close> has the
  text of the one in \<^verbatim>\<open>app/main.py\<close>, and its handlers read and assign the very globals
  that function assigns; here these are the references \<open>main_executor\<close> and
  \<open>main_manager\<close>. The handler \<^verbatim>\<open>crawl\<close> reads the request body itself:
  \<^verbatim>\<open>request.json()\<close> raises or gives a dictionary in which either key may be missing. Its
  replies are \<^verbatim>\<open>{"status": "error", "message": m}\<close> and
  \<^verbatim>\<open>{"status": "finished", "results": r}\<close>. \<^verbatim>\<open>run_crawler\<close> has the text of
  \<^verbatim>\<open>run_crawler_process\<close>; \<open>web_crawler_crawl_try\<close> is the end of \<^verbatim>\<open>crawl\<close>, from
  \<^verbatim>\<open>manager.list()\<close> on.
\<close>

datatype request_body = Invalid_json exn | Json "string list option" "string list option"

datatype crawl_reply = Error_reply string | Finished_reply "CrawlResult list"

definition web_crawler_crawl_try ::
  "environment \<Rightarrow> executor \<Rightarrow> manager \<Rightarrow> string list \<Rightarrow> string list \<Rightarrow> world \<Rightarrow>
   (base_exn + crawl_reply) \<times> world" where
  "web_crawler_crawl_try env ex mg start_urls allowed_domains w =
     (case manager_list env of
        Fails e \<Rightarrow> (Inl (Of_Exception e), w)
      | Builds \<Rightarrow>
          (let spider_results = [];
               w' = w\<lparr>trace := trace w @ [Run_in_executor (pool_id ex) start_urls allowed_domains]\<rparr>
           in case dispatch env of
                Future_cancelled \<Rightarrow> (Inl CancelledError, w')
              | Executor_raises e \<Rightarrow>
                  (Inr (Error_reply (''Crawl execution failed: '' @ str e)), w')
              | Worker_runs \<Rightarrow>
                  (case fst (run_crawler_process (soup_parser env) (crawler env)
                               start_urls allowed_domains spider_results) of
                     Inl e \<Rightarrow> (Inr (Error_reply (''Crawl execution failed: '' @ str e)), w')
                   | Inr rs \<Rightarrow> (Inr (Finished_reply rs), w'))))"

definition web_crawler_crawl ::
  "environment \<Rightarrow> request_body \<Rightarrow> world \<Rightarrow> (base_exn + crawl_reply) \<times> world" where
  "web_crawler_crawl env body w =
     (case (if main_executor w = None \<or> main_manager w = None
            then init_resources (pool_construction env) (manager_construction env) w
            else (Inr (), w)) of
        (Inl e, w') \<Rightarrow> (Inl (Of_Exception e), w')
      | (Inr u, w') \<Rightarrow>
          (case (main_executor w', main_manager w') of
             (Some ex, Some mg) \<Rightarrow>
               (case body of
                  Invalid_json e \<Rightarrow> (Inr (Error_reply (''Invalid JSON payload: '' @ str e)), w')
                | Json urls domains \<Rightarrow>
                    (let start_urls = (case urls of None \<Rightarrow> [] | Some us \<Rightarrow> us);
                         allowed_domains = (case domains of None \<Rightarrow> [] | Some ds \<Rightarrow> ds)
                     in if start_urls = []
                        then (Inr (Error_reply ''start_urls must be provided.''), w')
                        else web_crawler_crawl_try env ex mg start_urls allowed_domains w'))
           | _ \<Rightarrow>
               (Inr (Error_reply
                  ''Server resources are not initialized. Please ensure the server started correctly.''),
                w')))"

definition web_crawler_shutdown_executor :: "world \<Rightarrow> world" where
  "web_crawler_shutdown_executor w =
     (case main_executor w of
        None \<Rightarrow> w
      | Some ex \<Rightarrow> w\<lparr>trace := trace w @ [Pool_shutdown (pool_id ex)]\<rparr>)"

definition web_crawler_shutdown_manager :: "world \<Rightarrow> world" where
  "web_crawler_shutdown_manager w =
     (case main_manager w of
        None \<Rightarrow> w
      | Some mg \<Rightarrow> w\<lparr>trace := trace w @ [Manager_shutdown (manager_id mg)]\<rparr>)"

definition web_crawler_refresh_resources ::
  "ctor_outcome \<Rightarrow> ctor_outcome \<Rightarrow> world \<Rightarrow> refresh_dict \<times> world" where
  "web_crawler_refresh_resources pool_ctor manager_ctor w =
     (let w = web_crawler_shutdown_executor w;
          w = web_crawler_shutdown_manager w;
          w = w\<lparr>main_executor := None, main_manager := None\<rparr>
      in case init_resources pool_ctor manager_ctor w of
           (Inr u, w') \<Rightarrow>
             (Refresh_dict ''refreshed_and_restarted''
                ''Worker pools have been terminated and new pools are ready for immediate use.'', w')
         | (Inl e, w') \<Rightarrow>
             (Refresh_dict ''error'' (''Failed to re-initialize resources: '' @ str e), w'))"

section \<open>app/api/v1/endpoints/crawler_controller.py and app/models/crawler_models.py\<close>

text \<open>
  \<^verbatim>\<open>crawl_endpoint\<close> returns the dictionary of \<^verbatim>\<open>crawl_service\<close> under
  \<^verbatim>\<open>response_model=CrawlResponse\<close>: FastAPI serialises the fields the model declares,
  \<^verbatim>\<open>status\<close> and \<^verbatim>\<open>results\<close>. An exception that leaves the handler is answered with status
  500; a cancellation ends the handler without a response of its own.
\<close>

record CrawlRequest =
  start_urls :: "string list"
  allowed_domains :: "string list"

datatype http_response = HTTP_200 CrawlResponse | HTTP_500 | Handler_cancelled

definition response_model :: "service_dict \<Rightarrow> CrawlResponse" where
  "response_model d = \<lparr>status = status d, results = results d\<rparr>"

definition crawl_endpoint :: "environment \<Rightarrow> CrawlRequest \<Rightarrow> world \<Rightarrow> http_response \<times> world" where
  "crawl_endpoint env request w =
     (case crawl_service env (start_urls request) (allowed_domains request) w of
        (Inl (Of_Exception e), w') \<Rightarrow> (HTTP_500, w')
      | (Inl CancelledError, w') \<Rightarrow> (Handler_cancelled, w')
      | (Inr d, w') \<Rightarrow> (HTTP_200 (response_model d), w'))"

section \<open>Concrete states, pages and environments\<close>

text \<open>
  Three states: the modules imported and nothing constructed; a start in which the pool
  was built and the coordinator's constructor raised; and the started service, with pool 0
  and coordinator 1 in the globals of \<^verbatim>\<open>app.main\<close>.
\<close>

definition unset_world :: world where
  "unset_world =
     \<lparr>MAX_WORKERS = 4, python_3_11 = True, main_executor = None, main_manager = None,
      svc_executor = None, svc_manager = None, next_id = 0, trace = []\<rparr>"

definition pool_only_world :: world where
  "pool_only_world =
     \<lparr>MAX_WORKERS = 4, python_3_11 = True,
      main_executor = Some (ProcessPoolExecutor 0 4 (Some 1)), main_manager = None,
      svc_executor = None, svc_manager = None, next_id = 1, trace = [Pool_constructed 0]\<rparr>"

definition running_world :: world where
  "running_world =
     \<lparr>MAX_WORKERS = 4, python_3_11 = True,
      main_executor = Some (ProcessPoolExecutor 0 4 (Some 1)), main_manager = Some (Manager 1),
      svc_executor = None, svc_manager = None,
      next_id = 2, trace = [Pool_constructed 0, Manager_constructed 1]\<rparr>"

text \<open>
  A page with a script block of 51 characters, a paragraph of 40 characters, a text node of
  white space and a paragraph of 10 characters, as the parser delivers it.
\<close>

definition example_soup :: "node list" where
  "example_soup =
     [Tag ''html''
        [Tag ''head'' [],
         Tag ''body''
           [Tag ''script'' [NavigableString (py ''var tracking_identifier_for_this_page = 1234567890;'')],
            Tag ''p'' [NavigableString (py ''This paragraph has exactly forty chars!!'')],
            NavigableString (py '' ''),
            Tag ''p'' [NavigableString (py ''Short text'')]]]]"

text \<open>
  The entry \<^verbatim>\<open>parse\<close> appends for a response; a crawler whose process is built, that
  fetches every start URL and ends as told; a crawler whose constructor raises; an
  environment in which the constructors and \<^verbatim>\<open>manager.list()\<close> succeed and every page
  parses to the page above.
\<close>

definition page_result :: "(pystr \<Rightarrow> node list) \<Rightarrow> response \<Rightarrow> CrawlResult" where
  "page_result BeautifulSoup response =
     \<lparr>url = response_url response,
      html = extract_important_text_bs4 BeautifulSoup (response_text response)\<rparr>"

definition echo_crawler :: "crawl_end \<Rightarrow> string list \<Rightarrow> string list \<Rightarrow> crawl_run" where
  "echo_crawler end urls domains = Crawl Builds (map (\<lambda>u. Response u []) urls) end"


definition example_env :: "dispatch_outcome \<Rightarrow> crawl_end \<Rightarrow> environment" where
  "example_env d end =
     \<lparr>pool_construction = Builds, manager_construction = Builds, manager_list = Builds,
      dispatch = d, soup_parser = (\<lambda>html_content. example_soup), crawler = echo_crawler end\<rparr>"

section \<open>Properties of init_resources\<close>

lemma init_resources_live:
  "main_executor w = Some ex \<Longrightarrow> main_manager w = Some mg \<Longrightarrow>
   init_resources pool_ctor manager_ctor w = (Inr (), w)"
  by (simp add: init_resources_def)

lemma init_resources_builds:
  "main_executor w = None \<or> main_manager w = None \<Longrightarrow>
   init_resources Builds Builds w = (Inr (), assign_manager (assign_executor w))"
  by (auto simp: init_resources_def)

lemma shutdowns_assign_executor: "shutdowns (trace (assign_executor w)) = shutdowns (trace w)"
  by (simp add: assign_executor_def shutdowns_def)

lemma shutdowns_assign_manager: "shutdowns (trace (assign_manager w)) = shutdowns (trace w)"
  by (simp add: assign_manager_def shutdowns_def)

lemma shutdowns_init_resources:
  "shutdowns (trace (snd (init_resources pool_ctor manager_ctor w))) = shutdowns (trace w)"
  by (simp add: init_resources_def shutdowns_assign_executor shutdowns_assign_manager
      split: ctor_outcome.splits)

lemma ids_allocated_init_resources:
  "ids_allocated w \<Longrightarrow> ids_allocated (snd (init_resources pool_ctor manager_ctor w))"
  by (cases "svc_executor w"; cases "svc_manager w"; cases "main_executor w"; cases "main_manager w")
     (auto simp: init_resources_def ids_allocated_def assign_executor_def assign_manager_def
        new_executor_def split: ctor_outcome.splits)

lemma init_resources_raises:
  "fst (init_resources pool_ctor manager_ctor w) = Inl e \<Longrightarrow>
   (pool_ctor = Fails e \<and> snd (init_resources pool_ctor manager_ctor w) = w) \<or>
   (pool_ctor = Builds \<and> manager_ctor = Fails e \<and>
    snd (init_resources pool_ctor manager_ctor w) = assign_executor w)"
  by (auto simp: init_resources_def split: if_splits ctor_outcome.splits)

lemma assign_executor_fields:
  "main_executor (assign_executor w) = Some (new_executor w)"
  "main_manager (assign_executor w) = main_manager w"
  "svc_executor (assign_executor w) = svc_executor w"
  "svc_manager (assign_executor w) = svc_manager w"
  "next_id (assign_executor w) = Suc (next_id w)"
  "trace (assign_executor w) = trace w @ [Pool_constructed (next_id w)]"
  by (simp_all add: assign_executor_def)

lemma assign_manager_fields:
  "main_executor (assign_manager w) = main_executor w"
  "main_manager (assign_manager w) = Some (Manager (next_id w))"
  "svc_executor (assign_manager w) = svc_executor w"
  "svc_manager (assign_manager w) = svc_manager w"
  "next_id (assign_manager w) = Suc (next_id w)"
  "trace (assign_manager w) = trace w @ [Manager_constructed (next_id w)]"
  by (simp_all add: assign_manager_def)

lemma pool_id_new_executor: "pool_id (new_executor w) = next_id w"
  by (simp add: new_executor_def)

lemma init_resources_changes_world:
  "main_executor w = None \<or> main_manager w = None \<Longrightarrow>
   init_resources pool_ctor manager_ctor w \<noteq> (Inr (), w)"
proof (cases pool_ctor)
  case (Fails e)
  assume "main_executor w = None \<or> main_manager w = None"
  with Fails show ?thesis by (auto simp: init_resources_def)
next
  case Builds
  assume unset: "main_executor w = None \<or> main_manager w = None"
  show ?thesis
  proof (cases manager_ctor)
    case (Fails e)
    with Builds unset show ?thesis by (auto simp: init_resources_def)
  next
    case Builds': Builds
    have "next_id (assign_manager (assign_executor w)) \<noteq> next_id w"
      by (simp add: assign_manager_fields assign_executor_fields)
    then have "assign_manager (assign_executor w) \<noteq> w" by auto
    with Builds Builds' unset show ?thesis by (auto simp: init_resources_def)
  qed
qed

section \<open>Claims about init_resources\<close>

text \<open>
  C5. \<^verbatim>\<open>init_resources\<close> is idempotent: in every state in which the pool reference and
  the coordinator reference are both set, the call returns at once, whatever the
  constructors would have done. The whole state is unchanged: the references keep their
  identities, the identity counter has not moved and the trace has no new construction.
  A second call in a row is again a no-op.
\<close>

theorem init_resources_idempotent:
  assumes "main_executor w \<noteq> None" and "main_manager w \<noteq> None"
  shows "init_resources pool_ctor manager_ctor w = (Inr (), w) \<and>
         init_resources pool_ctor' manager_ctor'
           (snd (init_resources pool_ctor manager_ctor w)) = (Inr (), w)"
  using assms by (simp add: init_resources_def)

theorem init_resources_idempotent_witness:
  "main_executor running_world \<noteq> None \<and> main_manager running_world \<noteq> None \<and>
   init_resources Builds Builds running_world = (Inr (), running_world) \<and>
   init_resources Builds (Fails (Exception ''no manager''))
     (snd (init_resources Builds Builds running_world)) = (Inr (), running_world)"
proof -
  have ex: "main_executor running_world \<noteq> None" by (simp add: running_world_def)
  have mg: "main_manager running_world \<noteq> None" by (simp add: running_world_def)
  note init_resources_idempotent
    [OF ex mg, of Builds Builds Builds "Fails (Exception ''no manager'')"]
  with ex mg show ?thesis by blast
qed

text \<open>
  C1, as stated: after a failed construction both references are unset. The body assigns
  the pool reference as soon as the pool is built, and the handler of the \<^verbatim>\<open>try\<close> only
  prints and re-raises: when the coordinator's constructor raises, the new pool stays in
  its reference and the coordinator reference stays unset.
\<close>

theorem init_resources_partial_counterexample:
  "fst (init_resources Builds (Fails (Exception ''manager failed'')) unset_world) =
     Inl (Exception ''manager failed'') \<and>
   main_executor (snd (init_resources Builds (Fails (Exception ''manager failed'')) unset_world)) =
     Some (ProcessPoolExecutor 0 4 (Some 1)) \<and>
   main_manager (snd (init_resources Builds (Fails (Exception ''manager failed'')) unset_world)) =
     None"
  by (simp add: init_resources_def unset_world_def assign_executor_def new_executor_def)

text \<open>
  C1, amended. When \<^verbatim>\<open>init_resources\<close> raises, the exception is the constructor's own and
  one of two things happened. Either the pool's constructor raised: then the state is the
  state before the call, so both references are unset if they were. Or the pool was built
  and the coordinator's constructor raised: then the pool reference holds the new pool and
  the coordinator reference is what it was before the call. A call that finds the
  coordinator reference unset after such a failure does not return early: with both
  constructors succeeding it builds a pool and a coordinator and returns with both set.
\<close>

theorem init_resources_failure:
  assumes "fst (init_resources pool_ctor manager_ctor w) = Inl e"
  shows "((pool_ctor = Fails e \<and> snd (init_resources pool_ctor manager_ctor w) = w) \<or>
          (pool_ctor = Builds \<and> manager_ctor = Fails e \<and>
           main_executor (snd (init_resources pool_ctor manager_ctor w)) = Some (new_executor w) \<and>
           main_manager (snd (init_resources pool_ctor manager_ctor w)) = main_manager w)) \<and>
         (main_manager w = None \<longrightarrow>
          fst (init_resources Builds Builds (snd (init_resources pool_ctor manager_ctor w))) = Inr () \<and>
          main_executor (snd (init_resources Builds Builds
             (snd (init_resources pool_ctor manager_ctor w)))) \<noteq> None \<and>
          main_manager (snd (init_resources Builds Builds
             (snd (init_resources pool_ctor manager_ctor w)))) \<noteq> None)"
proof -
  let ?w' = "snd (init_resources pool_ctor manager_ctor w)"
  from init_resources_raises [OF assms]
  have cases: "(pool_ctor = Fails e \<and> ?w' = w) \<or>
               (pool_ctor = Builds \<and> manager_ctor = Fails e \<and> ?w' = assign_executor w)" .
  then have first: "(pool_ctor = Fails e \<and> ?w' = w) \<or>
          (pool_ctor = Builds \<and> manager_ctor = Fails e \<and>
           main_executor ?w' = Some (new_executor w) \<and> main_manager ?w' = main_manager w)"
    by (auto simp: assign_executor_fields)
  have second: "fst (init_resources Builds Builds ?w') = Inr () \<and>
          main_executor (snd (init_resources Builds Builds ?w')) \<noteq> None \<and>
          main_manager (snd (init_resources Builds Builds ?w')) \<noteq> None"
    if unset: "main_manager w = None"
  proof -
    from cases unset have "main_manager ?w' = None"
      by (auto simp: assign_executor_fields)
    then have "init_resources Builds Builds ?w' = (Inr (), assign_manager (assign_executor ?w'))"
      by (simp add: init_resources_builds)
    then show ?thesis
      by (simp add: assign_manager_fields assign_executor_fields)
  qed
  from first second show ?thesis by blast
qed

theorem init_resources_failure_witness:
  "fst (init_resources (Fails (Exception ''no pool'')) Builds unset_world) =
     Inl (Exception ''no pool'') \<and>
   snd (init_resources (Fails (Exception ''no pool'')) Builds unset_world) = unset_world \<and>
   main_manager unset_world = None \<and>
   fst (init_resources Builds Builds
     (snd (init_resources (Fails (Exception ''no pool'')) Builds unset_world))) = Inr () \<and>
   main_manager (snd (init_resources Builds Builds
     (snd (init_resources (Fails (Exception ''no pool'')) Builds unset_world)))) \<noteq> None"
proof -
  have raised: "fst (init_resources (Fails (Exception ''no pool'')) Builds unset_world) =
     Inl (Exception ''no pool'')"
    by (simp add: init_resources_def unset_world_def)
  have unset: "main_manager unset_world = None"
    by (simp add: unset_world_def)
  have state: "snd (init_resources (Fails (Exception ''no pool'')) Builds unset_world) = unset_world"
    by (simp add: init_resources_def unset_world_def)
  from init_resources_failure [OF raised] unset
  have "fst (init_resources Builds Builds
          (snd (init_resources (Fails (Exception ''no pool'')) Builds unset_world))) = Inr () \<and>
        main_manager (snd (init_resources Builds Builds
          (snd (init_resources (Fails (Exception ''no pool'')) Builds unset_world)))) \<noteq> None"
    by blast
  with raised unset state show ?thesis by blast
qed

text \<open>
  C10. When exactly one of the two references of \<^verbatim>\<open>app.main\<close> is set, \<^verbatim>\<open>init_resources\<close>
  does not take the early return: whatever the constructors do, the call is not the no-op,
  and it never calls a shutdown. With both constructors succeeding it returns with both
  references overwritten: the pool reference holds a pool and the coordinator reference a
  coordinator with the next two unused identities, the trace gains exactly these two
  constructions, and the instance that was live before, its identity drawn earlier from
  the counter, is no longer the one referenced.
\<close>

theorem init_resources_partial_state:
  assumes "(main_executor w = None) \<noteq> (main_manager w = None)"
  shows "init_resources pool_ctor manager_ctor w \<noteq> (Inr (), w) \<and>
         shutdowns (trace (snd (init_resources pool_ctor manager_ctor w))) = shutdowns (trace w) \<and>
         fst (init_resources Builds Builds w) = Inr () \<and>
         main_executor (snd (init_resources Builds Builds w)) = Some (new_executor w) \<and>
         main_manager (snd (init_resources Builds Builds w)) = Some (Manager (Suc (next_id w))) \<and>
         trace (snd (init_resources Builds Builds w)) =
           trace w @ [Pool_constructed (next_id w), Manager_constructed (Suc (next_id w))] \<and>
         (ids_allocated w \<longrightarrow>
            main_executor (snd (init_resources Builds Builds w)) \<noteq> main_executor w \<and>
            main_manager (snd (init_resources Builds Builds w)) \<noteq> main_manager w)"
proof -
  from assms have unset: "main_executor w = None \<or> main_manager w = None" by auto
  have built: "init_resources Builds Builds w = (Inr (), assign_manager (assign_executor w))"
    using unset by (rule init_resources_builds)
  have fresh: "main_executor (assign_manager (assign_executor w)) \<noteq> main_executor w \<and>
               main_manager (assign_manager (assign_executor w)) \<noteq> main_manager w"
    if "ids_allocated w"
  proof -
    have "executor_below (next_id w) (main_executor w)" "manager_below (next_id w) (main_manager w)"
      using that by (simp_all add: ids_allocated_def)
    then show ?thesis
      by (cases "main_executor w"; cases "main_manager w")
         (auto simp: assign_manager_fields assign_executor_fields new_executor_def)
  qed
  show ?thesis
    using init_resources_changes_world [OF unset, of pool_ctor manager_ctor]
      shutdowns_init_resources [of pool_ctor manager_ctor w] fresh
    by (simp add: built assign_manager_fields assign_executor_fields)
qed

theorem init_resources_partial_state_witness:
  "(main_executor pool_only_world = None) \<noteq> (main_manager pool_only_world = None) \<and>
   ids_allocated pool_only_world \<and>
   init_resources Builds Builds pool_only_world \<noteq> (Inr (), pool_only_world) \<and>
   main_executor (snd (init_resources Builds Builds pool_only_world)) =
     Some (ProcessPoolExecutor 1 4 (Some 1)) \<and>
   main_manager (snd (init_resources Builds Builds pool_only_world)) = Some (Manager 2) \<and>
   trace (snd (init_resources Builds Builds pool_only_world)) =
     [Pool_constructed 0, Pool_constructed 1, Manager_constructed 2] \<and>
   main_executor (snd (init_resources Builds Builds pool_only_world)) \<noteq>
     main_executor pool_only_world"
proof -
  have partial: "(main_executor pool_only_world = None) \<noteq> (main_manager pool_only_world = None)"
    by (simp add: pool_only_world_def)
  have alloc: "ids_allocated pool_only_world"
    by (simp add: ids_allocated_def pool_only_world_def)
  have new: "new_executor pool_only_world = ProcessPoolExecutor 1 4 (Some 1)"
    by (simp add: new_executor_def pool_only_world_def)
  have old: "next_id pool_only_world = 1" "trace pool_only_world = [Pool_constructed 0]"
    "main_executor pool_only_world = Some (ProcessPoolExecutor 0 4 (Some 1))"
    "main_manager pool_only_world = None"
    by (simp_all add: pool_only_world_def)
  from init_resources_partial_state [OF partial, of Builds Builds] alloc
  show ?thesis
    by (simp add: new old)
qed
section \<open>Properties of the text extraction\<close>

lemma splitlines_from_char:
  "\<not> is_linebreak c \<Longrightarrow> splitlines_from line (c # cs) = splitlines_from (line @ [c]) cs"
  by (cases cs) (auto simp: is_linebreak_def)

lemma splitlines_from_newline:
  "splitlines_from line (10 # cs) = line # splitlines_from [] cs"
  by (cases cs) (auto simp: is_linebreak_def)

lemma splitlines_from_append:
  "\<forall>c \<in> set l. \<not> is_linebreak c \<Longrightarrow> splitlines_from line (l @ cs) = splitlines_from (line @ l) cs"
  by (induction l arbitrary: line) (auto simp: splitlines_from_char)

lemma splitlines_from_line:
  assumes "\<forall>c \<in> set l. \<not> is_linebreak c"
  shows "splitlines_from [] (l @ cs) = splitlines_from l cs"
  using splitlines_from_append [OF assms, of "[]" cs] by simp

text \<open>No line that \<^verbatim>\<open>splitlines\<close> returns contains a line boundary.\<close>

lemma splitlines_from_list_all:
  "list_all (\<lambda>c. \<not> is_linebreak c) line \<Longrightarrow>
   list_all (list_all (\<lambda>c. \<not> is_linebreak c)) (splitlines_from line s)"
  by (induction line s rule: splitlines_from.induct) simp_all

lemma splitlines_from_no_break:
  assumes "l \<in> set (splitlines_from [] s)" and "c \<in> set l"
  shows "\<not> is_linebreak c"
proof -
  have "list_all (list_all (\<lambda>c. \<not> is_linebreak c)) (splitlines_from [] s)"
    by (rule splitlines_from_list_all) simp
  with assms show ?thesis
    by (simp add: list_all_iff)
qed

text \<open>
  Joining lines with a line feed and splitting again gives the lines back, provided no
  line is empty or contains a line boundary.
\<close>

lemma splitlines_join:
  "\<forall>l \<in> set ls. l \<noteq> [] \<and> (\<forall>c \<in> set l. \<not> is_linebreak c) \<Longrightarrow> splitlines (join [10] ls) = ls"
proof (induction ls)
  case Nil
  show ?case by (simp add: splitlines_def)
next
  case (Cons x xs)
  from Cons.prems have x: "x \<noteq> []" "\<forall>c \<in> set x. \<not> is_linebreak c" by simp_all
  from Cons.prems have "\<forall>l \<in> set xs. l \<noteq> [] \<and> (\<forall>c \<in> set l. \<not> is_linebreak c)" by simp
  then have IH: "splitlines (join [10] xs) = xs" by (rule Cons.IH)
  show ?case
  proof (cases xs)
    assume empty: "xs = []"
    have "splitlines_from [] (x @ []) = splitlines_from x []"
      using x(2) by (rule splitlines_from_line)
    then have "splitlines_from [] x = [x]"
      using x(1) by simp
    then show ?thesis
      unfolding empty splitlines_def by simp
  next
    fix y ys assume more: "xs = y # ys"
    have rest: "splitlines_from [] (join [10] (y # ys)) = y # ys"
      using IH unfolding more splitlines_def .
    have "splitlines_from [] (x @ 10 # join [10] (y # ys)) = splitlines_from x (10 # join [10] (y # ys))"
      using x(2) by (rule splitlines_from_line)
    also have "\<dots> = x # splitlines_from [] (join [10] (y # ys))"
      by (rule splitlines_from_newline)
    also have "\<dots> = x # y # ys"
      by (simp only: rest)
    finally have "splitlines_from [] (join [10] (x # y # ys)) = x # y # ys"
      by (simp del: splitlines_from.simps)
    then show ?thesis
      unfolding more splitlines_def .
  qed
qed

lemma splitlines_join_long:
  "splitlines (join [10] (filter (\<lambda>line. length line > 30) (splitlines s))) =
   filter (\<lambda>line. length line > 30) (splitlines s)"
proof (rule splitlines_join, rule ballI)
  fix l assume "l \<in> set (filter (\<lambda>line. length line > 30) (splitlines s))"
  then have l: "l \<in> set (splitlines_from [] s)" "30 < length l"
    by (simp_all add: splitlines_def)
  from l(2) have "l \<noteq> []" by auto
  moreover have "\<forall>c \<in> set l. \<not> is_linebreak c"
    using splitlines_from_no_break [OF l(1)] by blast
  ultimately show "l \<noteq> [] \<and> (\<forall>c \<in> set l. \<not> is_linebreak c)" by blast
qed

text \<open>
  Decomposing the elements of one name after the other leaves exactly the strings outside
  every element of these names.
\<close>

lemma all_strings_visible: "all_strings ns = visible_strings {} ns"
  by (induction ns rule: all_strings.induct) simp_all

lemma visible_decompose_all:
  "visible_strings U (decompose_all t ns) = visible_strings (insert t U) ns"
  by (induction t ns rule: decompose_all.induct) simp_all

lemma visible_fold_decompose_all:
  "visible_strings U (fold decompose_all ts ns) = visible_strings (set ts \<union> U) ns"
proof (induction ts arbitrary: ns U)
  case Nil
  show ?case by simp
next
  case (Cons t ts)
  have "visible_strings U (fold decompose_all (t # ts) ns) =
        visible_strings (set ts \<union> U) (decompose_all t ns)"
    by (simp add: Cons.IH)
  also have "\<dots> = visible_strings (insert t (set ts \<union> U)) ns"
    by (rule visible_decompose_all)
  finally show ?case by simp
qed

lemma extract_important_text_bs4_visible:
  "extract_important_text_bs4 B h =
     join [10] (filter (\<lambda>line. 30 < length line)
       (splitlines (join [10] (visible_strings (set unwanted_tags) (B h)))))"
proof -
  have "all_strings (fold decompose_all unwanted_tags (B h)) =
        visible_strings (set unwanted_tags) (B h)"
    using visible_fold_decompose_all [of "{}" unwanted_tags "B h"]
    by (simp add: all_strings_visible)
  then show ?thesis
    by (simp add: extract_important_text_bs4_def Let_def get_text_def)
qed

text \<open>The example page, step by step.\<close>

lemma example_lengths:
  "length (py ''This paragraph has exactly forty chars!!'') = 40"
  "length (py ''Short text'') = 10"
  "length (py ''var tracking_identifier_for_this_page = 1234567890;'') = 51"
  by (simp_all add: py_def)

lemma example_decomposed:
  "fold decompose_all unwanted_tags example_soup =
     [Tag ''html''
        [Tag ''head'' [],
         Tag ''body''
           [Tag ''p'' [NavigableString (py ''This paragraph has exactly forty chars!!'')],
            NavigableString (py '' ''),
            Tag ''p'' [NavigableString (py ''Short text'')]]]]"
  by (simp add: unwanted_tags_def example_soup_def)

lemma example_strings:
  "all_strings
     [Tag ''html''
        [Tag ''head'' [],
         Tag ''body''
           [Tag ''p'' [NavigableString (py ''This paragraph has exactly forty chars!!'')],
            NavigableString (py '' ''),
            Tag ''p'' [NavigableString (py ''Short text'')]]]] =
   [py ''This paragraph has exactly forty chars!!'', py ''Short text'']"
  by (simp add: strip_def isspace_def py_def)

lemma example_lines:
  "splitlines (join [10] [py ''This paragraph has exactly forty chars!!'', py ''Short text'']) =
   [py ''This paragraph has exactly forty chars!!'', py ''Short text'']"
  by (rule splitlines_join) (simp add: py_def is_linebreak_def)

lemma example_forty_line:
  "splitlines (py ''This paragraph has exactly forty chars!!'') =
   [py ''This paragraph has exactly forty chars!!'']"
proof -
  have "splitlines (join [10] [py ''This paragraph has exactly forty chars!!'']) =
        [py ''This paragraph has exactly forty chars!!'']"
    by (rule splitlines_join) (simp add: py_def is_linebreak_def)
  then show ?thesis by simp
qed

lemma example_extract:
  "extract_important_text_bs4 (\<lambda>html_content. example_soup) h =
   py ''This paragraph has exactly forty chars!!''"
proof -
  have "filter (\<lambda>line. length line > 30)
          [py ''This paragraph has exactly forty chars!!'', py ''Short text''] =
        [py ''This paragraph has exactly forty chars!!'']"
    by (simp add: py_def)
  then show ?thesis
    unfolding extract_important_text_bs4_def Let_def get_text_def
      example_decomposed example_strings example_lines
    by (simp only: join.simps)
qed

text \<open>
  C7. \<^verbatim>\<open>extract_important_text_bs4\<close> returns, joined by line feeds, exactly the lines longer
  than 30 characters of the visible text, where the visible text is made of the stripped
  text nodes outside every \<^verbatim>\<open>script\<close>, \<^verbatim>\<open>style\<close>, \<^verbatim>\<open>nav\<close>, \<^verbatim>\<open>footer\<close>, \<^verbatim>\<open>aside\<close>, \<^verbatim>\<open>form\<close>, \<^verbatim>\<open>s\<close>
  and \<^verbatim>\<open>a\<close> element, joined by line feeds; splitting the returned text into lines gives
  these lines back, none lost and none added. For the page with a script block, a paragraph
  of 40 characters and a paragraph of 10 characters the returned text is the line of 40
  characters and nothing else, so neither the script's content (51 characters, longer than
  the threshold) nor the short line is in it.
\<close>

theorem extract_important_text_bs4_policy:
  "extract_important_text_bs4 B h =
     join [10] (filter (\<lambda>line. 30 < length line)
       (splitlines (join [10] (visible_strings (set unwanted_tags) (B h))))) \<and>
   splitlines (extract_important_text_bs4 B h) =
     filter (\<lambda>line. 30 < length line)
       (splitlines (join [10] (visible_strings (set unwanted_tags) (B h)))) \<and>
   set unwanted_tags =
     {''script'', ''style'', ''nav'', ''footer'', ''aside'', ''form'', ''s'', ''a''} \<and>
   length (py ''This paragraph has exactly forty chars!!'') = 40 \<and>
   length (py ''Short text'') = 10 \<and>
   length (py ''var tracking_identifier_for_this_page = 1234567890;'') = 51 \<and>
   extract_important_text_bs4 (\<lambda>html_content. example_soup) h =
     py ''This paragraph has exactly forty chars!!'' \<and>
   splitlines (extract_important_text_bs4 (\<lambda>html_content. example_soup) h) =
     [py ''This paragraph has exactly forty chars!!'']"
proof -
  have lines: "splitlines (extract_important_text_bs4 B h) =
     filter (\<lambda>line. 30 < length line)
       (splitlines (join [10] (visible_strings (set unwanted_tags) (B h))))"
    unfolding extract_important_text_bs4_visible by (rule splitlines_join_long)
  have tags: "set unwanted_tags =
     {''script'', ''style'', ''nav'', ''footer'', ''aside'', ''form'', ''s'', ''a''}"
    by (simp add: unwanted_tags_def)
  have example: "splitlines (extract_important_text_bs4 (\<lambda>html_content. example_soup) h) =
     [py ''This paragraph has exactly forty chars!!'']"
    by (simp only: example_extract example_forty_line)
  from extract_important_text_bs4_visible [of B h] lines tags example_lengths
    example_extract [of h] example
  show ?thesis by blast
qed

section \<open>Properties of the job runner\<close>

lemma fold_parse: "fold (parse B) rs sink = sink @ map (page_result B) rs"
  by (induction rs arbitrary: sink) (simp_all add: parse_def page_result_def)

lemma run_crawler_process_eq:
  "run_crawler_process B C us ds sink =
     (case process_ctor (C us ds) of
        Fails e \<Rightarrow> (Inl e, sink)
      | Builds \<Rightarrow>
          (case ending (C us ds) of
             Completes \<Rightarrow> (Inr (sink @ map (page_result B) (responses (C us ds))),
                            sink @ map (page_result B) (responses (C us ds)))
           | Raises e \<Rightarrow> (Inr [], sink @ map (page_result B) (responses (C us ds)))))"
  by (simp add: run_crawler_process_def Let_def fold_parse split: ctor_outcome.splits)

lemma echo_crawler_fields:
  "process_ctor (echo_crawler end us ds) = Builds"
  "ending (echo_crawler end us ds) = end"
  "responses (echo_crawler end us ds) = map (\<lambda>u. Response u []) us"
  by (simp_all add: echo_crawler_def)


lemma example_page:
  "page_result (\<lambda>html_content. example_soup) (Response u t) =
     \<lparr>url = u, html = py ''This paragraph has exactly forty chars!!''\<rparr>"
  by (simp add: page_result_def example_extract)

text \<open>
  C9. Once the crawler process is built, the shared list holds, after the run, what it
  held before followed by one entry per parsed response. When the crawl then raises after
  at least one response was parsed, \<^verbatim>\<open>run_crawler_process\<close> returns the empty list, which
  differs from the content of the shared list; when the crawl completes, the returned
  list is the content of the shared list.
\<close>

theorem run_crawler_process_partial_results:
  "(process_ctor (C us ds) = Builds \<longrightarrow>
      snd (run_crawler_process B C us ds sink) =
        sink @ map (page_result B) (responses (C us ds))) \<and>
   (process_ctor (C us ds) = Builds \<and> ending (C us ds) = Raises e \<and> responses (C us ds) \<noteq> [] \<longrightarrow>
      fst (run_crawler_process B C us ds sink) = Inr [] \<and>
      fst (run_crawler_process B C us ds sink) \<noteq> Inr (snd (run_crawler_process B C us ds sink))) \<and>
   (process_ctor (C us ds) = Builds \<and> ending (C us ds) = Completes \<longrightarrow>
      fst (run_crawler_process B C us ds sink) = Inr (snd (run_crawler_process B C us ds sink)))"
  by (cases "ending (C us ds)") (auto simp: run_crawler_process_eq)

theorem run_crawler_process_partial_results_witness:
  "process_ctor (echo_crawler (Raises (Exception ''reactor failed'')) [''http://example.test/a''] [''example.test''])
     = Builds \<and>
   ending (echo_crawler (Raises (Exception ''reactor failed'')) [''http://example.test/a''] [''example.test''])
     = Raises (Exception ''reactor failed'') \<and>
   responses (echo_crawler (Raises (Exception ''reactor failed'')) [''http://example.test/a''] [''example.test''])
     \<noteq> [] \<and>
   fst (run_crawler_process (\<lambda>html_content. example_soup)
          (echo_crawler (Raises (Exception ''reactor failed''))) [''http://example.test/a''] [''example.test''] []) =
     Inr [] \<and>
   snd (run_crawler_process (\<lambda>html_content. example_soup)
          (echo_crawler (Raises (Exception ''reactor failed''))) [''http://example.test/a''] [''example.test''] []) =
     [\<lparr>url = ''http://example.test/a'', html = py ''This paragraph has exactly forty chars!!''\<rparr>] \<and>
   process_ctor (echo_crawler Completes [''http://example.test/a''] [''example.test'']) = Builds \<and>
   ending (echo_crawler Completes [''http://example.test/a''] [''example.test'']) = Completes \<and>
   fst (run_crawler_process (\<lambda>html_content. example_soup)
          (echo_crawler Completes) [''http://example.test/a''] [''example.test''] []) =
     Inr [\<lparr>url = ''http://example.test/a'', html = py ''This paragraph has exactly forty chars!!''\<rparr>]"
proof -
  let ?B = "\<lambda>html_content::pystr. example_soup"
  let ?us = "[''http://example.test/a'']" and ?ds = "[''example.test'']"
  let ?e = "Exception ''reactor failed''"
  have built: "process_ctor (echo_crawler (Raises ?e) ?us ?ds) = Builds"
    and raises: "ending (echo_crawler (Raises ?e) ?us ?ds) = Raises ?e"
    and pages: "responses (echo_crawler (Raises ?e) ?us ?ds) \<noteq> []"
    and built': "process_ctor (echo_crawler Completes ?us ?ds) = Builds"
    and completes: "ending (echo_crawler Completes ?us ?ds) = Completes"
    by (simp_all add: echo_crawler_fields)
  note failed = run_crawler_process_partial_results
    [of "echo_crawler (Raises ?e)" ?us ?ds ?B "[]" ?e]
  note finished = run_crawler_process_partial_results
    [of "echo_crawler Completes" ?us ?ds ?B "[]" ?e]
  from failed built raises pages have 1:
    "fst (run_crawler_process ?B (echo_crawler (Raises ?e)) ?us ?ds []) = Inr []" by blast
  from failed built have "snd (run_crawler_process ?B (echo_crawler (Raises ?e)) ?us ?ds []) =
       [] @ map (page_result ?B) (responses (echo_crawler (Raises ?e) ?us ?ds))" by blast
  then have 2:
    "snd (run_crawler_process ?B (echo_crawler (Raises ?e)) ?us ?ds []) =
       [\<lparr>url = ''http://example.test/a'', html = py ''This paragraph has exactly forty chars!!''\<rparr>]"
    by (simp add: echo_crawler_fields example_page)
  from finished built' completes
  have "fst (run_crawler_process ?B (echo_crawler Completes) ?us ?ds []) =
       Inr (snd (run_crawler_process ?B (echo_crawler Completes) ?us ?ds []))" by blast
  moreover from finished built'
  have "snd (run_crawler_process ?B (echo_crawler Completes) ?us ?ds []) =
       [] @ map (page_result ?B) (responses (echo_crawler Completes ?us ?ds))" by blast
  ultimately have 3:
    "fst (run_crawler_process ?B (echo_crawler Completes) ?us ?ds []) =
       Inr [\<lparr>url = ''http://example.test/a'', html = py ''This paragraph has exactly forty chars!!''\<rparr>]"
    by (simp add: echo_crawler_fields example_page)
  from built raises pages built' completes 1 2 3 show ?thesis by blast
qed

section \<open>Invariants of the service\<close>

lemma svc_init_resources:
  "svc_executor (snd (init_resources pc mc w)) = svc_executor w"
  "svc_manager (snd (init_resources pc mc w)) = svc_manager w"
  by (simp_all add: init_resources_def assign_executor_fields assign_manager_fields
      split: ctor_outcome.splits)

lemma dispatches_init_resources:
  "dispatches (trace (snd (init_resources pc mc w))) = dispatches (trace w)"
  by (simp add: init_resources_def assign_executor_fields assign_manager_fields dispatches_def
      split: ctor_outcome.splits)

lemma started_init_resources: "started w \<Longrightarrow> init_resources pc mc w = (Inr (), w)"
  by (simp add: started_def init_resources_def)


text \<open>
  While one of the service module's names is unset, \<^verbatim>\<open>crawl_service\<close> calls
  \<^verbatim>\<open>init_resources\<close>, which assigns the globals of \<^verbatim>\<open>app.main\<close> only: the second test
  finds the service module's names as the first did, and nothing is dispatched.
\<close>

lemma crawl_service_unset:
  assumes "svc_executor w = None \<or> svc_manager w = None"
  shows "crawl_service env us ds w =
     (case init_resources (pool_construction env) (manager_construction env) w of
        (Inl e, w') \<Rightarrow> (Inl (Of_Exception e), w')
      | (Inr u, w') \<Rightarrow> (Inr not_initialized, w'))"
proof -
  obtain r w' where init: "init_resources (pool_construction env) (manager_construction env) w = (r, w')"
    by (cases "init_resources (pool_construction env) (manager_construction env) w")
  from svc_init_resources [of "pool_construction env" "manager_construction env" w] init
  have same: "svc_executor w' = svc_executor w" "svc_manager w' = svc_manager w" by simp_all
  from assms show ?thesis
    by (cases "svc_executor w"; cases "svc_manager w"; cases r)
       (simp_all add: crawl_service_def init same)
qed

lemma crawl_service_unset_state:
  assumes "service_names_unset w"
  shows "snd (crawl_service env us ds w) =
         snd (init_resources (pool_construction env) (manager_construction env) w)"
proof -
  from assms have "svc_executor w = None \<or> svc_manager w = None"
    by (simp add: service_names_unset_def)
  then show ?thesis
    by (simp add: crawl_service_unset split: prod.splits sum.splits)
qed

lemma crawl_service_started:
  assumes "service_names_unset w" and "started w"
  shows "crawl_service env us ds w = (Inr not_initialized, w)"
proof -
  from assms(1) have "svc_executor w = None \<or> svc_manager w = None"
    by (simp add: service_names_unset_def)
  then show ?thesis
    by (simp add: crawl_service_unset started_init_resources [OF assms(2)])
qed

text \<open>
  The names of the service module are unset after the import, and each operation of the
  service leaves them unset; a started service stays started.
\<close>

lemma service_names_unset_imported: "service_names_unset unset_world"
  by (simp add: service_names_unset_def unset_world_def)

lemma service_names_unset_init_resources:
  "service_names_unset w \<Longrightarrow> service_names_unset (snd (init_resources pc mc w))"
  by (simp add: service_names_unset_def svc_init_resources)

lemma service_names_unset_crawl_service:
  "service_names_unset w \<Longrightarrow> service_names_unset (snd (crawl_service env us ds w))"
  by (simp add: crawl_service_unset_state service_names_unset_init_resources)

lemma svc_refresh:
  "svc_executor (snd (refresh_resources_service pc mc w)) = None"
  "svc_manager (snd (refresh_resources_service pc mc w)) = None"
proof -
  let ?w = "(shutdown_manager (shutdown_executor w))\<lparr>svc_executor := None, svc_manager := None\<rparr>"
  have "snd (refresh_resources_service pc mc w) = snd (init_resources pc mc ?w)"
    by (simp add: refresh_resources_service_def Let_def split: prod.splits sum.splits)
  then show "svc_executor (snd (refresh_resources_service pc mc w)) = None"
    "svc_manager (snd (refresh_resources_service pc mc w)) = None"
    by (simp_all add: svc_init_resources)
qed

lemma service_names_unset_refresh:
  "service_names_unset (snd (refresh_resources_service pc mc w))"
  by (simp add: service_names_unset_def svc_refresh)

lemma refresh_started:
  assumes "service_names_unset w" and "started w"
  shows "refresh_resources_service pc mc w =
     (Refresh_dict ''refreshed_and_restarted''
        ''Worker pools have been terminated and new pools are ready for immediate use.'', w)"
proof -
  from assms(1) have unset: "svc_executor w = None" "svc_manager w = None"
    by (simp_all add: service_names_unset_def)
  then have same: "(shutdown_manager (shutdown_executor w))\<lparr>svc_executor := None, svc_manager := None\<rparr> = w"
    by (simp add: shutdown_executor_def shutdown_manager_def)
  show ?thesis
    by (simp add: refresh_resources_service_def Let_def same started_init_resources [OF assms(2)])
qed

lemma crawl_service_never_dispatches:
  assumes "service_names_unset w"
  shows "dispatches (trace (snd (crawl_service env us ds w))) = dispatches (trace w)"
  by (simp add: crawl_service_unset_state [OF assms] dispatches_init_resources)

lemma running_world_started:
  "running_world = snd (init_resources Builds Builds unset_world)"
  "service_names_unset running_world"
  "started running_world"
  by (simp_all add: running_world_def unset_world_def init_resources_def assign_executor_def
      assign_manager_def new_executor_def service_names_unset_def started_def)

section \<open>Properties of the dispatch in crawl_service\<close>




lemma crawl_service_try_completes:
  "manager_list env = Builds \<Longrightarrow> dispatch env = Worker_runs \<Longrightarrow>
   process_ctor (crawler env us ds) = Builds \<Longrightarrow> ending (crawler env us ds) = Completes \<Longrightarrow>
   crawl_service_try env ex mg us ds w =
     (Inr \<lparr>status = ''finished'',
           results = map (page_result (soup_parser env)) (responses (crawler env us ds)),
           message = None\<rparr>,
      w\<lparr>trace := trace w @ [Run_in_executor (pool_id ex) us ds]\<rparr>)"
  by (simp add: crawl_service_try_def run_crawler_process_eq)

text \<open>
  A cancelled future and a failure of \<^verbatim>\<open>manager.list()\<close> are the two ways in which the end
  of \<^verbatim>\<open>crawl_service\<close> raises instead of returning.
\<close>

lemma crawl_service_try_cancelled:
  "manager_list env = Builds \<Longrightarrow> dispatch env = Future_cancelled \<Longrightarrow>
   fst (crawl_service_try env ex mg us ds w) = Inl CancelledError"
  by (simp add: crawl_service_try_def)

lemma crawl_service_try_no_list:
  "manager_list env = Fails e \<Longrightarrow>
   crawl_service_try env ex mg us ds w = (Inl (Of_Exception e), w)"
  by (simp add: crawl_service_try_def)


section \<open>A failing job and the calls after it\<close>









section \<open>Refresh followed by a crawl\<close>

text \<open>
  After \<^verbatim>\<open>refresh_resources_service\<close>, whatever the state before and whatever the
  constructors did, \<^verbatim>\<open>crawl_service\<close> dispatches nothing: it raises the exception of
  \<^verbatim>\<open>init_resources\<close> or returns the outcome that the resources are not initialized.
\<close>

lemma refresh_then_crawl_service:
  "(\<exists>e. fst (crawl_service env us ds (snd (refresh_resources_service pc mc w))) =
          Inl (Of_Exception e)) \<or>
   fst (crawl_service env us ds (snd (refresh_resources_service pc mc w))) = Inr not_initialized"
proof -
  let ?w = "snd (refresh_resources_service pc mc w)"
  have "svc_executor ?w = None \<or> svc_manager ?w = None"
    by (simp add: svc_refresh)
  then have "crawl_service env us ds ?w =
     (case init_resources (pool_construction env) (manager_construction env) ?w of
        (Inl e, w') \<Rightarrow> (Inl (Of_Exception e), w')
      | (Inr u, w') \<Rightarrow> (Inr not_initialized, w'))"
    by (rule crawl_service_unset)
  then show ?thesis
    by (cases "init_resources (pool_construction env) (manager_construction env) ?w")
       (auto split: sum.splits)
qed

text \<open>
  The single-module service does what the claim says: its refresh unsets the globals that
  its \<^verbatim>\<open>init_resources\<close> assigns, so with both constructors succeeding the pool is rebuilt
  and the next crawl with a start URL is dispatched.
\<close>

lemma web_crawler_refresh_live:
  "\<exists>ex mg. main_executor (snd (web_crawler_refresh_resources Builds Builds w)) = Some ex \<and>
           main_manager (snd (web_crawler_refresh_resources Builds Builds w)) = Some mg"
proof -
  let ?w = "(web_crawler_shutdown_manager (web_crawler_shutdown_executor w))
              \<lparr>main_executor := None, main_manager := None\<rparr>"
  have "snd (web_crawler_refresh_resources Builds Builds w) = snd (init_resources Builds Builds ?w)"
    by (simp add: web_crawler_refresh_resources_def Let_def split: prod.splits sum.splits)
  moreover have "init_resources Builds Builds ?w = (Inr (), assign_manager (assign_executor ?w))"
    by (rule init_resources_builds) simp
  ultimately show ?thesis
    by (simp add: assign_manager_fields assign_executor_fields)
qed

lemma web_crawler_crawl_live:
  assumes "main_executor w = Some ex" and "main_manager w = Some mg"
  shows "web_crawler_crawl env (Json (Some us) (Some ds)) w =
     (if us = [] then (Inr (Error_reply ''start_urls must be provided.''), w)
      else web_crawler_crawl_try env ex mg us ds w)"
  using assms by (simp add: web_crawler_crawl_def)

lemma web_crawler_refresh_then_crawl:
  assumes "us \<noteq> []" and "manager_list env = Builds" and "dispatch env = Worker_runs"
    and "process_ctor (crawler env us ds) = Builds" and "ending (crawler env us ds) = Completes"
  shows "fst (web_crawler_crawl env (Json (Some us) (Some ds))
                (snd (web_crawler_refresh_resources Builds Builds w))) =
         Inr (Finished_reply (map (page_result (soup_parser env)) (responses (crawler env us ds))))"
proof -
  from web_crawler_refresh_live [of w] obtain ex mg where
    live: "main_executor (snd (web_crawler_refresh_resources Builds Builds w)) = Some ex"
      "main_manager (snd (web_crawler_refresh_resources Builds Builds w)) = Some mg"
    by blast
  show ?thesis
    using assms
    by (simp add: web_crawler_crawl_live [OF live] web_crawler_crawl_try_def run_crawler_process_eq)
qed

text \<open>
  C2, on the code. In the started service, with nothing in flight and whatever the
  constructors would do, \<^verbatim>\<open>refresh_resources_service\<close> reports
  \<^verbatim>\<open>refreshed_and_restarted\<close> and leaves the state as it was: its own names are unset, so
  it shuts nothing down, and \<^verbatim>\<open>init_resources\<close> finds the globals of \<^verbatim>\<open>app.main\<close> set and
  constructs nothing. The \<^verbatim>\<open>crawl_service\<close> call that follows finds its own names unset,
  calls \<^verbatim>\<open>init_resources\<close> to no effect on them, and returns the outcome that the
  resources are not initialized. From every state and with every outcome of the
  constructors, the \<^verbatim>\<open>crawl_service\<close> call after a refresh raises the exception of
  \<^verbatim>\<open>init_resources\<close> or returns that outcome.
\<close>

theorem refresh_then_crawl_not_initialized:
  "refresh_resources_service pc mc running_world =
     (Refresh_dict ''refreshed_and_restarted''
        ''Worker pools have been terminated and new pools are ready for immediate use.'',
      running_world) \<and>
   trace (snd (refresh_resources_service pc mc running_world)) =
     [Pool_constructed 0, Manager_constructed 1] \<and>
   crawl_service (example_env Worker_runs Completes) [''http://example.test/a''] [''example.test'']
     (snd (refresh_resources_service pc mc running_world)) =
     (Inr \<lparr>status = ''error'', results = [],
           message = Some ''Server resources are not initialized. Please ensure the server started correctly.''\<rparr>,
      running_world) \<and>
   ((\<exists>e. fst (crawl_service env us ds (snd (refresh_resources_service pc' mc' w))) =
           Inl (Of_Exception e)) \<or>
    fst (crawl_service env us ds (snd (refresh_resources_service pc' mc' w))) =
      Inr \<lparr>status = ''error'', results = [],
           message = Some ''Server resources are not initialized. Please ensure the server started correctly.''\<rparr>)"
proof -
  have refresh: "refresh_resources_service pc mc running_world =
     (Refresh_dict ''refreshed_and_restarted''
        ''Worker pools have been terminated and new pools are ready for immediate use.'',
      running_world)"
    by (rule refresh_started [OF running_world_started(2,3)])
  have crawl: "crawl_service (example_env Worker_runs Completes)
       [''http://example.test/a''] [''example.test''] running_world =
     (Inr not_initialized, running_world)"
    by (rule crawl_service_started [OF running_world_started(2,3)])
  have "trace running_world = [Pool_constructed 0, Manager_constructed 1]"
    by (simp add: running_world_def)
  with refresh crawl refresh_then_crawl_service [of env us ds pc' mc' w] show ?thesis
    by (simp add: not_initialized_def)
qed

section \<open>Empty start URLs\<close>

text \<open>
  The single-module handler rejects a request without start URLs before it dispatches:
  with its pool live it returns the error reply and leaves the state as it was.
\<close>

lemma web_crawler_crawl_empty_start_urls:
  assumes "main_executor w \<noteq> None" and "main_manager w \<noteq> None"
  shows "web_crawler_crawl env (Json (Some []) domains) w =
           (Inr (Error_reply ''start_urls must be provided.''), w)"
    and "web_crawler_crawl env (Json None domains) w =
           (Inr (Error_reply ''start_urls must be provided.''), w)"
  using assms by (auto simp add: web_crawler_crawl_def)

lemma crawl_service_unset_result:
  assumes "service_names_unset w"
  shows "(\<exists>e. fst (crawl_service env us ds w) = Inl (Of_Exception e) \<and>
              fst (init_resources (pool_construction env) (manager_construction env) w) = Inl e) \<or>
         fst (crawl_service env us ds w) = Inr not_initialized"
proof -
  from assms have "svc_executor w = None \<or> svc_manager w = None"
    by (simp add: service_names_unset_def)
  then have "crawl_service env us ds w =
     (case init_resources (pool_construction env) (manager_construction env) w of
        (Inl e, w') \<Rightarrow> (Inl (Of_Exception e), w')
      | (Inr u, w') \<Rightarrow> (Inr not_initialized, w'))"
    by (rule crawl_service_unset)
  then show ?thesis
    by (cases "init_resources (pool_construction env) (manager_construction env) w")
       (auto split: sum.splits)
qed

lemma crawl_endpoint_started:
  assumes "service_names_unset w" and "started w"
  shows "crawl_endpoint env request w = (HTTP_200 \<lparr>status = ''error'', results = []\<rparr>, w)"
  by (simp add: crawl_endpoint_def crawl_service_started [OF assms] response_model_def
      not_initialized_def)

text \<open>
  C6. The names of the service module being unset, as they are in every state of the
  service, \<^verbatim>\<open>crawl_service\<close> called with no start URL dispatches nothing, and a dictionary
  it returns has the status error and empty results. In a started service it returns this
  dictionary and leaves the state as it was, \<^verbatim>\<open>crawl_endpoint\<close> answers with the status
  error, and the handler \<^verbatim>\<open>crawl\<close> of the single-module service, given an empty or a
  missing list of start URLs, returns its error reply and leaves the state as it was.
\<close>

theorem crawl_service_empty_start_urls:
  assumes "service_names_unset w"
  shows "dispatches (trace (snd (crawl_service env [] ds w))) = dispatches (trace w) \<and>
    (\<forall>d. fst (crawl_service env [] ds w) = Inr d \<longrightarrow> status d = ''error'' \<and> results d = []) \<and>
    (started w \<longrightarrow>
       crawl_service env [] ds w =
         (Inr \<lparr>status = ''error'', results = [],
               message = Some ''Server resources are not initialized. Please ensure the server started correctly.''\<rparr>,
          w) \<and>
       crawl_endpoint env \<lparr>start_urls = [], allowed_domains = ds\<rparr> w =
         (HTTP_200 \<lparr>status = ''error'', results = []\<rparr>, w) \<and>
       web_crawler_crawl env (Json (Some []) domains) w =
         (Inr (Error_reply ''start_urls must be provided.''), w) \<and>
       web_crawler_crawl env (Json None domains) w =
         (Inr (Error_reply ''start_urls must be provided.''), w))"
proof -
  have no_dispatch: "dispatches (trace (snd (crawl_service env [] ds w))) = dispatches (trace w)"
    by (rule crawl_service_never_dispatches [OF assms])
  have error: "status d = ''error'' \<and> results d = []" if "fst (crawl_service env [] ds w) = Inr d" for d
    using crawl_service_unset_result [OF assms, of env "[]" ds] that
    by (auto simp add: not_initialized_def)
  have service: "crawl_service env [] ds w =
         (Inr \<lparr>status = ''error'', results = [],
               message = Some ''Server resources are not initialized. Please ensure the server started correctly.''\<rparr>,
          w)" if "started w"
    using crawl_service_started [OF assms that, of env "[]" ds] by (simp add: not_initialized_def)
  have endpoint: "crawl_endpoint env \<lparr>start_urls = [], allowed_domains = ds\<rparr> w =
         (HTTP_200 \<lparr>status = ''error'', results = []\<rparr>, w)" if "started w"
    by (rule crawl_endpoint_started [OF assms that])
  have single: "web_crawler_crawl env (Json (Some []) domains) w =
         (Inr (Error_reply ''start_urls must be provided.''), w) \<and>
       web_crawler_crawl env (Json None domains) w =
         (Inr (Error_reply ''start_urls must be provided.''), w)" if "started w"
    using that by (simp add: started_def web_crawler_crawl_empty_start_urls)
  from no_dispatch error service endpoint single show ?thesis by blast
qed

theorem crawl_service_empty_start_urls_witness:
  "service_names_unset running_world \<and> started running_world \<and>
   fst (crawl_service (example_env Worker_runs Completes) [] [''example.test''] running_world) =
     Inr \<lparr>status = ''error'', results = [],
          message = Some ''Server resources are not initialized. Please ensure the server started correctly.''\<rparr> \<and>
   dispatches (trace (snd (crawl_service (example_env Worker_runs Completes) [] [''example.test'']
                             running_world))) = [] \<and>
   crawl_endpoint (example_env Worker_runs Completes)
     \<lparr>start_urls = [], allowed_domains = [''example.test'']\<rparr> running_world =
     (HTTP_200 \<lparr>status = ''error'', results = []\<rparr>, running_world) \<and>
   web_crawler_crawl (example_env Worker_runs Completes) (Json (Some []) (Some [''example.test'']))
     running_world =
     (Inr (Error_reply ''start_urls must be provided.''), running_world)"
proof -
  let ?env = "example_env Worker_runs Completes"
  have unset: "service_names_unset running_world" and started: "started running_world"
    by (rule running_world_started)+
  note empty = crawl_service_empty_start_urls
    [OF unset, of ?env "[''example.test'']" "Some [''example.test'']"]
  have none: "dispatches (trace running_world) = []"
    by (simp add: running_world_def dispatches_def)
  from empty started
  have 1: "crawl_service ?env [] [''example.test''] running_world =
     (Inr \<lparr>status = ''error'', results = [],
           message = Some ''Server resources are not initialized. Please ensure the server started correctly.''\<rparr>,
      running_world)"
    by blast
  from empty none
  have 2: "dispatches (trace (snd (crawl_service ?env [] [''example.test''] running_world))) = []"
    by simp
  from empty started
  have 3: "crawl_endpoint ?env \<lparr>start_urls = [], allowed_domains = [''example.test'']\<rparr> running_world =
     (HTTP_200 \<lparr>status = ''error'', results = []\<rparr>, running_world)"
    by blast
  from empty started
  have 4: "web_crawler_crawl ?env (Json (Some []) (Some [''example.test''])) running_world =
     (Inr (Error_reply ''start_urls must be provided.''), running_world)"
    by blast
  from 1 have 5: "fst (crawl_service ?env [] [''example.test''] running_world) =
     Inr \<lparr>status = ''error'', results = [],
          message = Some ''Server resources are not initialized. Please ensure the server started correctly.''\<rparr>"
    by (simp only: fst_conv)
  from unset started 5 2 3 4 show ?thesis by blast
qed

section \<open>The response of POST /crawl\<close>

lemma response_model_message: "response_model (d\<lparr>message := m\<rparr>) = response_model d"
  by (simp add: response_model_def)

lemma response_model_execution_failed:
  "response_model (execution_failed e) = \<lparr>status = ''error'', results = []\<rparr>"
  by (simp add: response_model_def execution_failed_def)

text \<open>An exception of \<^verbatim>\<open>init_resources\<close> inside \<^verbatim>\<open>crawl_service\<close> is answered with status 500.\<close>

lemma crawl_endpoint_init_failure:
  "fst (crawl_endpoint
          ((example_env Worker_runs Completes)\<lparr>pool_construction := Fails (Exception ''no pool'')\<rparr>)
          \<lparr>start_urls = [''http://example.test/a''], allowed_domains = [''example.test'']\<rparr>
          unset_world) = HTTP_500"
  by (simp add: crawl_endpoint_def crawl_service_def init_resources_def unset_world_def
      example_env_def)

text \<open>
  C8, on the code. The response model declares \<^verbatim>\<open>status\<close> and \<^verbatim>\<open>results\<close> only. In the
  started service \<^verbatim>\<open>crawl_service\<close> builds the error outcome with its message, and the
  response of the endpoint carries the status and the empty results without the message.
  The same holds for the outcome built when the dispatched execution fails, and for every
  dictionary the response is the same whatever its message.
\<close>

theorem crawl_endpoint_drops_message:
  "fst (crawl_service env us ds running_world) =
     Inr \<lparr>status = ''error'', results = [],
          message = Some ''Server resources are not initialized. Please ensure the server started correctly.''\<rparr> \<and>
   fst (crawl_endpoint env \<lparr>start_urls = us, allowed_domains = ds\<rparr> running_world) =
     HTTP_200 \<lparr>status = ''error'', results = []\<rparr> \<and>
   response_model
     \<lparr>status = ''error'', results = [],
      message = Some (''Crawl execution failed: '' @ str e)\<rparr> =
     \<lparr>status = ''error'', results = []\<rparr> \<and>
   response_model (d\<lparr>message := m\<rparr>) = response_model d"
proof -
  have "crawl_service env us ds running_world = (Inr not_initialized, running_world)"
    by (rule crawl_service_started [OF running_world_started(2,3)])
  then show ?thesis
    by (simp add: crawl_endpoint_def response_model_def not_initialized_def)
qed


end
